theory Spec2Isabelle
  imports Main "HOL-Library.Word"
begin

unbundle bit_operations_syntax

section \<open>The mosaic game contract (\<open>contract/sources/curg_mosaic_reveal.move\<close>)\<close>

text \<open>
  The module \<open>curg_mosaic_reveal::mosaic\<close> keeps one shared \<open>Game\<close> object per game.
  Its public functions are embedded as functions from the object (and the call's
  arguments) to either the abort code or the updated object with the effects of the call
  (events emitted, coins transferred). Move runs every call inside a transaction: when the
  body aborts, every change the body made up to that point is discarded and the stored
  object is the one from before the call. The result \<open>Inl code\<close> therefore carries no
  object, and \<open>apply_tx\<close> below keeps the old one.
\<close>

subsection \<open>Values of the Move language and of the Sui framework\<close>

type_synonym u8 = "8 word"
type_synonym u64 = "64 word"
type_synonym bytes = "u8 list"
type_synonym address = "256 word"

text \<open>
  An object id is derived by the runtime from the transaction digest and the number of
  objects the transaction has created so far; the pair stands for the derived id.
\<close>

type_synonym ID = "bytes \<times> nat"

record TxContext =
  sender :: address
  tx_hash :: bytes
  ids_created :: nat

definition object_new :: "TxContext \<Rightarrow> ID \<times> TxContext" where
  "object_new ctx = ((tx_hash ctx, ids_created ctx), ctx\<lparr>ids_created := ids_created ctx + 1\<rparr>)"

record Clock =
  clock_timestamp_ms :: u64

record Coin =
  coin_id :: ID
  coin_balance :: u64

text \<open>
  The abort codes of the module (its constants 0 to 6), followed by the aborts of the
  framework functions the module calls: an out-of-range vector borrow, an overflowing
  \<open>u64\<close> addition, \<open>balance::split\<close> beyond the balance, \<open>string::utf8\<close> on bytes that
  are not UTF-8, \<open>option::fill\<close> on a filled option, and \<open>table::add\<close> and
  \<open>table::remove\<close> on a present and on a missing key.
\<close>

datatype abort_code =
    EGameAlreadySolved
  | EInvalidPayment
  | EInvalidTileIndex
  | ETileAlreadyRevealed
  | EIncorrectAnswer
  | ENoCommitmentFound
  | ECommitmentTooFresh
  | EVectorIndexOutOfBounds
  | EArithmeticOverflow
  | EBalanceNotEnough
  | EInvalidUTF8
  | EOptionIsSet
  | EFieldAlreadyExists
  | EFieldDoesNotExist

definition abort_value :: "abort_code \<Rightarrow> u64 option" where
  "abort_value e =
    (case e of
       EGameAlreadySolved \<Rightarrow> Some 0
     | EInvalidPayment \<Rightarrow> Some 1
     | EInvalidTileIndex \<Rightarrow> Some 2
     | ETileAlreadyRevealed \<Rightarrow> Some 3
     | EIncorrectAnswer \<Rightarrow> Some 4
     | ENoCommitmentFound \<Rightarrow> Some 5
     | ECommitmentTooFresh \<Rightarrow> Some 6
     | _ \<Rightarrow> None)"

definition TILE_PRICE :: u64 where
  "TILE_PRICE = 1000"

definition TOTAL_TILES :: u64 where
  "TOTAL_TILES = 100"

definition vector_borrow :: "'a list \<Rightarrow> u64 \<Rightarrow> abort_code + 'a" where
  "vector_borrow v i = (if unat i < length v then Inr (v ! unat i) else Inl EVectorIndexOutOfBounds)"

definition option_is_none :: "'a option \<Rightarrow> bool" where
  "option_is_none t = (case t of None \<Rightarrow> True | Some _ \<Rightarrow> False)"

definition option_fill :: "'a option \<Rightarrow> 'a \<Rightarrow> abort_code + 'a option" where
  "option_fill t e = (case t of None \<Rightarrow> Inr (Some e) | Some _ \<Rightarrow> Inl EOptionIsSet)"

definition coin_value :: "Coin \<Rightarrow> u64" where
  "coin_value c = coin_balance c"

definition coin_into_balance :: "Coin \<Rightarrow> u64" where
  "coin_into_balance c = coin_balance c"

definition balance_join :: "u64 \<Rightarrow> u64 \<Rightarrow> abort_code + u64" where
  "balance_join self b = (if unat self + unat b < 2 ^ 64 then Inr (self + b) else Inl EArithmeticOverflow)"

definition balance_split :: "u64 \<Rightarrow> u64 \<Rightarrow> abort_code + (u64 \<times> u64)" where
  "balance_split self v = (if v \<le> self then Inr (v, self - v) else Inl EBalanceNotEnough)"

definition coin_take :: "u64 \<Rightarrow> u64 \<Rightarrow> TxContext \<Rightarrow> abort_code + (Coin \<times> u64)" where
  "coin_take bal v ctx =
    (case balance_split bal v of
       Inl e \<Rightarrow> Inl e
     | Inr (taken, rest) \<Rightarrow> Inr (\<lparr>coin_id = fst (object_new ctx), coin_balance = taken\<rparr>, rest))"

definition table_contains :: "('k \<rightharpoonup> 'v) \<Rightarrow> 'k \<Rightarrow> bool" where
  "table_contains t k = (case t k of None \<Rightarrow> False | Some _ \<Rightarrow> True)"

definition table_add :: "('k \<rightharpoonup> 'v) \<Rightarrow> 'k \<Rightarrow> 'v \<Rightarrow> abort_code + ('k \<rightharpoonup> 'v)" where
  "table_add t k v = (case t k of None \<Rightarrow> Inr (t(k \<mapsto> v)) | Some _ \<Rightarrow> Inl EFieldAlreadyExists)"

definition table_remove :: "('k \<rightharpoonup> 'v) \<Rightarrow> 'k \<Rightarrow> abort_code + ('v \<times> ('k \<rightharpoonup> 'v))" where
  "table_remove t k = (case t k of None \<Rightarrow> Inl EFieldDoesNotExist | Some v \<Rightarrow> Inr (v, t(k := None)))"

subsection \<open>\<open>string::utf8\<close>\<close>

text \<open>
  \<open>string::utf8\<close> aborts unless its argument is well-formed UTF-8: shortest encodings
  only, no surrogates, nothing above U+10FFFF.
\<close>

definition in_range :: "u8 \<Rightarrow> u8 \<Rightarrow> u8 \<Rightarrow> bool" where
  "in_range lo hi b = (lo \<le> b \<and> b \<le> hi)"

fun check_utf8 :: "bytes \<Rightarrow> bool" where
  "check_utf8 [] = True"
| "check_utf8 (b # bs) =
    (if b < 0x80 then check_utf8 bs
     else if in_range 0xC2 0xDF b then
       (case bs of c # r \<Rightarrow> in_range 0x80 0xBF c \<and> check_utf8 r | _ \<Rightarrow> False)
     else if in_range 0xE0 0xEF b then
       (case bs of
          c # d # r \<Rightarrow>
            in_range (if b = 0xE0 then 0xA0 else 0x80) (if b = 0xED then 0x9F else 0xBF) c \<and>
            in_range 0x80 0xBF d \<and> check_utf8 r
        | _ \<Rightarrow> False)
     else if in_range 0xF0 0xF4 b then
       (case bs of
          c # d # e # r \<Rightarrow>
            in_range (if b = 0xF0 then 0x90 else 0x80) (if b = 0xF4 then 0x8F else 0xBF) c \<and>
            in_range 0x80 0xBF d \<and> in_range 0x80 0xBF e \<and> check_utf8 r
        | _ \<Rightarrow> False)
     else False)"

definition string_utf8 :: "bytes \<Rightarrow> abort_code + bytes" where
  "string_utf8 bs = (if check_utf8 bs then Inr bs else Inl EInvalidUTF8)"

subsection \<open>\<open>sui::hash::keccak256\<close>\<close>

text \<open>
  The hash is a native function of the framework: Keccak-256, that is Keccak-f[1600]
  with rate 136 bytes, the padding byte 0x01 and 32 bytes of output. The state is the
  list of its 25 lanes, lane \<open>(x, y)\<close> at position \<open>x + 5 * y\<close>.
\<close>

definition keccak_RC :: "u64 list" where
  "keccak_RC =
    [0x0000000000000001, 0x0000000000008082, 0x800000000000808A, 0x8000000080008000,
     0x000000000000808B, 0x0000000080000001, 0x8000000080008081, 0x8000000000008009,
     0x000000000000008A, 0x0000000000000088, 0x0000000080008009, 0x000000008000000A,
     0x000000008000808B, 0x800000000000008B, 0x8000000000008089, 0x8000000000008003,
     0x8000000000008002, 0x8000000000000080, 0x000000000000800A, 0x800000008000000A,
     0x8000000080008081, 0x8000000000008080, 0x0000000080000001, 0x8000000080008008]"

definition keccak_rot :: "nat list" where
  "keccak_rot =
    [0, 1, 62, 28, 27,
     36, 44, 6, 55, 20,
     3, 10, 43, 25, 39,
     41, 45, 15, 21, 8,
     18, 2, 61, 56, 14]"

definition keccak_theta :: "u64 list \<Rightarrow> u64 list" where
  "keccak_theta A =
    (let C = map (\<lambda>x. A ! x XOR A ! (x + 5) XOR A ! (x + 10) XOR A ! (x + 15) XOR A ! (x + 20)) [0..<5];
         D = map (\<lambda>x. C ! ((x + 4) mod 5) XOR word_rotl 1 (C ! ((x + 1) mod 5))) [0..<5]
     in map (\<lambda>i. A ! i XOR D ! (i mod 5)) [0..<25])"

definition keccak_rho_pi :: "u64 list \<Rightarrow> u64 list" where
  "keccak_rho_pi A =
    map (\<lambda>i. let j = (i mod 5 + 3 * (i div 5)) mod 5 + 5 * (i mod 5)
             in word_rotl (keccak_rot ! j) (A ! j)) [0..<25]"

definition keccak_chi :: "u64 list \<Rightarrow> u64 list" where
  "keccak_chi B =
    map (\<lambda>i. let x = i mod 5; y = i div 5
             in B ! i XOR (NOT (B ! ((x + 1) mod 5 + 5 * y)) AND B ! ((x + 2) mod 5 + 5 * y)))
        [0..<25]"

definition keccak_round :: "u64 list \<Rightarrow> u64 \<Rightarrow> u64 list" where
  "keccak_round A rc = (let E = keccak_chi (keccak_rho_pi (keccak_theta A)) in E[0 := E ! 0 XOR rc])"

definition keccak_f :: "u64 list \<Rightarrow> u64 list" where
  "keccak_f A = foldl keccak_round A keccak_RC"

definition keccak_pad :: "bytes \<Rightarrow> bytes" where
  "keccak_pad m =
    (let q = 136 - length m mod 136
     in if q = 1 then m @ [0x81] else m @ [0x01] @ replicate (q - 2) 0 @ [0x80])"

definition lane_of_bytes :: "bytes \<Rightarrow> u64" where
  "lane_of_bytes bs = foldr (\<lambda>b w. ucast b OR push_bit 8 w) bs 0"

definition bytes_of_lane :: "u64 \<Rightarrow> bytes" where
  "bytes_of_lane w = map (\<lambda>i. ucast (drop_bit (8 * i) w)) [0..<8]"

definition keccak_xor_block :: "u64 list \<Rightarrow> bytes \<Rightarrow> u64 list" where
  "keccak_xor_block A blk =
    map (\<lambda>i. if i < 17 then A ! i XOR lane_of_bytes (take 8 (drop (8 * i) blk)) else A ! i) [0..<25]"

primrec keccak_absorb :: "nat \<Rightarrow> u64 list \<Rightarrow> bytes \<Rightarrow> u64 list" where
  "keccak_absorb 0 A m = A"
| "keccak_absorb (Suc n) A m = keccak_absorb n (keccak_f (keccak_xor_block A (take 136 m))) (drop 136 m)"

definition keccak256 :: "bytes \<Rightarrow> bytes" where
  "keccak256 m =
    (let p = keccak_pad m
     in take 32 (concat (map bytes_of_lane (keccak_absorb (length p div 136) (replicate 25 0) p))))"

subsection \<open>Structs and events of the module\<close>

record Commitment =
  submission_hash :: bytes
  timestamp_ms :: u64

text \<open>
  The field \<open>id\<close> of the struct is \<open>uid\<close> here, \<open>String\<close> values are their UTF-8
  bytes, \<open>Balance<SUI>\<close> is its \<open>u64\<close> value and the table is a map.
\<close>

record Game =
  uid :: ID
  creator :: address
  answer_hash :: bytes
  walrus_blob_id :: bytes
  encrypted_tile_keys :: "bytes list"
  encryption_ids :: "bytes list"
  decrypted_tile_keys :: "bytes option list"
  pot :: u64
  is_solved :: bool
  winner :: "address option"
  guess_commitments :: "address \<rightharpoonup> Commitment"

record OracleCap =
  cap_id :: ID

datatype event =
    GameCreated ID
  | TileRevealRequested ID u64 address
  | TileRevealed ID u64 bytes
  | GameSolved ID address u64

datatype effect =
    Emitted event
  | Transferred Coin address

subsection \<open>Functions of the module\<close>

text \<open>\<open>init\<close>: the capability goes to the publisher of the package.\<close>

definition init_module :: "TxContext \<Rightarrow> OracleCap \<times> address" where
  "init_module ctx = (\<lparr>cap_id = fst (object_new ctx)\<rparr>, sender ctx)"

text \<open>The two loops of \<open>create_game\<close>, with the loop counter \<open>i\<close> and the vector built so far.\<close>

function convert_ids :: "bytes list \<Rightarrow> u64 \<Rightarrow> bytes list \<Rightarrow> abort_code + bytes list" where
  "convert_ids encryption_ids_bytes i acc =
    (if i < TOTAL_TILES then
       (case vector_borrow encryption_ids_bytes i of
          Inl e \<Rightarrow> Inl e
        | Inr id_bytes \<Rightarrow>
            (case string_utf8 id_bytes of
               Inl e \<Rightarrow> Inl e
             | Inr id_string \<Rightarrow> convert_ids encryption_ids_bytes (i + 1) (acc @ [id_string])))
     else Inr acc)"
  by pat_completeness auto
termination
  by (relation "measure (\<lambda>(v, i, acc). unat (TOTAL_TILES - i))")
     (auto simp: TOTAL_TILES_def unat_sub word_le_nat_alt word_less_nat_alt unat_word_ariths)

function none_keys :: "u64 \<Rightarrow> bytes option list \<Rightarrow> bytes option list" where
  "none_keys i acc = (if i < TOTAL_TILES then none_keys (i + 1) (acc @ [None]) else acc)"
  by pat_completeness auto
termination
  by (relation "measure (\<lambda>(i, acc). unat (TOTAL_TILES - i))")
     (auto simp: TOTAL_TILES_def unat_sub word_le_nat_alt word_less_nat_alt unat_word_ariths)

declare convert_ids.simps [simp del] none_keys.simps [simp del]

text \<open>
  \<open>vector::length\<close> is a \<open>u64\<close>; a Move vector has fewer than \<open>2 ^ 64\<close> elements, so the
  comparison is made on the length itself.
\<close>

definition create_game ::
  "bytes \<Rightarrow> bytes \<Rightarrow> bytes list \<Rightarrow> bytes list \<Rightarrow> TxContext \<Rightarrow> abort_code + (Game \<times> effect list)" where
  "create_game answer_hash_arg walrus_blob_id_arg encrypted_keys encryption_ids_bytes ctx =
    (if length encrypted_keys \<noteq> unat TOTAL_TILES then Inl EInvalidPayment
     else if length encryption_ids_bytes \<noteq> unat TOTAL_TILES then Inl EInvalidPayment
     else
       (case convert_ids encryption_ids_bytes 0 [] of
          Inl e \<Rightarrow> Inl e
        | Inr ids \<Rightarrow>
            (let decrypted_keys = none_keys 0 [];
                 game = \<lparr>uid = fst (object_new ctx),
                         creator = sender ctx,
                         answer_hash = answer_hash_arg,
                         walrus_blob_id = walrus_blob_id_arg,
                         encrypted_tile_keys = encrypted_keys,
                         encryption_ids = ids,
                         decrypted_tile_keys = decrypted_keys,
                         pot = 0,
                         is_solved = False,
                         winner = None,
                         guess_commitments = Map.empty\<rparr>
             in Inr (game, [Emitted (GameCreated (uid game))]))))"

definition request_reveal ::
  "Game \<Rightarrow> u64 \<Rightarrow> Coin \<Rightarrow> TxContext \<Rightarrow> abort_code + (Game \<times> effect list)" where
  "request_reveal game tile_index payment ctx =
    (if is_solved game then Inl EGameAlreadySolved
     else if coin_value payment \<noteq> TILE_PRICE then Inl EInvalidPayment
     else if \<not> tile_index < TOTAL_TILES then Inl EInvalidTileIndex
     else
       (case vector_borrow (decrypted_tile_keys game) tile_index of
          Inl e \<Rightarrow> Inl e
        | Inr tile_option \<Rightarrow>
            if \<not> option_is_none tile_option then Inl ETileAlreadyRevealed
            else
              (case balance_join (pot game) (coin_into_balance payment) of
                 Inl e \<Rightarrow> Inl e
               | Inr joined \<Rightarrow>
                   Inr (game\<lparr>pot := joined\<rparr>,
                        [Emitted (TileRevealRequested (uid game) tile_index (sender ctx))]))))"

definition fulfill_reveal ::
  "OracleCap \<Rightarrow> Game \<Rightarrow> u64 \<Rightarrow> bytes \<Rightarrow> abort_code + (Game \<times> effect list)" where
  "fulfill_reveal cap game tile_index decrypted_key =
    (case vector_borrow (decrypted_tile_keys game) tile_index of
       Inl e \<Rightarrow> Inl e
     | Inr key_ref \<Rightarrow>
         if option_is_none key_ref then
           (case option_fill key_ref decrypted_key of
              Inl e \<Rightarrow> Inl e
            | Inr filled \<Rightarrow>
                Inr (game\<lparr>decrypted_tile_keys := (decrypted_tile_keys game)[unat tile_index := filled]\<rparr>,
                     [Emitted (TileRevealed (uid game) tile_index decrypted_key)]))
         else Inr (game, []))"

definition commit_guess ::
  "Game \<Rightarrow> bytes \<Rightarrow> Clock \<Rightarrow> TxContext \<Rightarrow> abort_code + (Game \<times> effect list)" where
  "commit_guess game submission_hash_arg clock ctx =
    (if is_solved game then Inl EGameAlreadySolved
     else
       (let commitment = \<lparr>submission_hash = submission_hash_arg,
                          timestamp_ms = clock_timestamp_ms clock\<rparr>
        in case (if table_contains (guess_commitments game) (sender ctx)
                 then (case table_remove (guess_commitments game) (sender ctx) of
                         Inl e \<Rightarrow> Inl e
                       | Inr (old_commit, remaining) \<Rightarrow> Inr remaining)
                 else Inr (guess_commitments game)) of
             Inl e \<Rightarrow> Inl e
           | Inr removed \<Rightarrow>
               (case table_add removed (sender ctx) commitment of
                  Inl e \<Rightarrow> Inl e
                | Inr added \<Rightarrow> Inr (game\<lparr>guess_commitments := added\<rparr>, []))))"

text \<open>
  \<open>solve\<close> takes the commitment out of the table before it checks the two hashes; the
  check of the clock against the commitment's time is commented out in the source, and
  \<open>game_salt\<close> is not read.
\<close>

definition solve ::
  "Game \<Rightarrow> bytes \<Rightarrow> bytes \<Rightarrow> bytes \<Rightarrow> Clock \<Rightarrow> TxContext \<Rightarrow> abort_code + (Game \<times> effect list)" where
  "solve game answer_input user_salt game_salt clock ctx =
    (if is_solved game then Inl EGameAlreadySolved
     else if \<not> table_contains (guess_commitments game) (sender ctx) then Inl ENoCommitmentFound
     else
       (case table_remove (guess_commitments game) (sender ctx) of
          Inl e \<Rightarrow> Inl e
        | Inr (commitment, remaining) \<Rightarrow>
            (let user_combine = answer_input @ user_salt;
                 calculated_user_hash = keccak256 user_combine
             in if calculated_user_hash \<noteq> submission_hash commitment then Inl EIncorrectAnswer
                else
                  (let calculated_game_hash = keccak256 answer_input
                   in if calculated_game_hash \<noteq> answer_hash game then Inl EIncorrectAnswer
                      else
                        (let prize_amount = pot game
                         in case coin_take (pot game) prize_amount ctx of
                              Inl e \<Rightarrow> Inl e
                            | Inr (prize, rest) \<Rightarrow>
                                Inr (game\<lparr>guess_commitments := remaining,
                                          is_solved := True,
                                          winner := Some (sender ctx),
                                          pot := rest\<rparr>,
                                     [Transferred prize (sender ctx),
                                      Emitted (GameSolved (uid game) (sender ctx) prize_amount)]))))))"

subsection \<open>Transactions\<close>

text \<open>
  A call of one of the four functions that take the shared game. A transaction that
  aborts leaves the stored game as it was and has no effect; one that returns stores the
  new game.
\<close>

datatype call =
    RequestReveal u64 Coin TxContext
  | FulfillReveal OracleCap u64 bytes
  | CommitGuess bytes Clock TxContext
  | Solve bytes bytes bytes Clock TxContext

fun run :: "call \<Rightarrow> Game \<Rightarrow> abort_code + (Game \<times> effect list)" where
  "run (RequestReveal tile_index payment ctx) g = request_reveal g tile_index payment ctx"
| "run (FulfillReveal cap tile_index decrypted_key) g = fulfill_reveal cap g tile_index decrypted_key"
| "run (CommitGuess h clock ctx) g = commit_guess g h clock ctx"
| "run (Solve answer_input user_salt game_salt clock ctx) g =
     solve g answer_input user_salt game_salt clock ctx"

datatype tx_result =
    Aborted abort_code
  | Executed "effect list"

definition apply_tx :: "call \<Rightarrow> Game \<Rightarrow> Game \<times> tx_result" where
  "apply_tx c g = (case run c g of Inl e \<Rightarrow> (g, Aborted e) | Inr (g', effs) \<Rightarrow> (g', Executed effs))"

fun apply_txs :: "call list \<Rightarrow> Game \<Rightarrow> Game" where
  "apply_txs [] g = g"
| "apply_txs (c # cs) g = apply_txs cs (fst (apply_tx c g))"

text \<open>The games that exist: created by \<open>create_game\<close>, then changed by transactions only.\<close>

inductive reachable :: "Game \<Rightarrow> bool" where
  created: "create_game ah blob keys ids ctx = Inr (g, effs) \<Longrightarrow> reachable g"
| stepped: "reachable g \<Longrightarrow> reachable (fst (apply_tx c g))"

subsection \<open>A game played through\<close>

text \<open>
  The states of one game: created by \<open>ADMIN\<close> with the answer \<open>sui\<close>, tile 0 requested
  by player A for the tile price and fulfilled by the oracle, then player B commits to
  \<open>sui\<close> with the salt \<open>salt1\<close> and solves. In \<open>game_miscommitted\<close> player A has
  committed the empty digest instead, which is the hash of nothing.
\<close>

definition ADMIN :: address where
  "ADMIN = 0xAD"

definition PLAYER_A :: address where
  "PLAYER_A = 0xA"

definition PLAYER_B :: address where
  "PLAYER_B = 0xB"

definition ctx_of :: "address \<Rightarrow> TxContext" where
  "ctx_of a = \<lparr>sender = a, tx_hash = [], ids_created = 0\<rparr>"

definition answer_sui :: bytes where
  "answer_sui = [0x73, 0x75, 0x69]"

definition answer_moon :: bytes where
  "answer_moon = [0x6D, 0x6F, 0x6F, 0x6E]"

definition salt1 :: bytes where
  "salt1 = [0x73, 0x61, 0x6C, 0x74, 0x31]"

definition key0 :: bytes where
  "key0 = [0x6B, 0x30]"

definition clock0 :: Clock where
  "clock0 = \<lparr>clock_timestamp_ms = 0\<rparr>"

definition oracle_cap :: OracleCap where
  "oracle_cap = fst (init_module (ctx_of ADMIN))"

definition exact_payment :: Coin where
  "exact_payment = \<lparr>coin_id = ([], 1), coin_balance = 1000\<rparr>"

definition game_created :: Game where
  "game_created =
    \<lparr>uid = ([], 0),
     creator = ADMIN,
     answer_hash = keccak256 answer_sui,
     walrus_blob_id = [],
     encrypted_tile_keys = replicate 100 [],
     encryption_ids = replicate 100 [],
     decrypted_tile_keys = replicate 100 None,
     pot = 0,
     is_solved = False,
     winner = None,
     guess_commitments = Map.empty\<rparr>"

definition game_requested :: Game where
  "game_requested = game_created\<lparr>pot := 1000\<rparr>"

definition game_revealed :: Game where
  "game_revealed = game_requested\<lparr>decrypted_tile_keys := (replicate 100 None)[0 := Some key0]\<rparr>"

definition game_committed :: Game where
  "game_committed =
    game_revealed\<lparr>guess_commitments :=
      [PLAYER_B \<mapsto> \<lparr>submission_hash = keccak256 (answer_sui @ salt1), timestamp_ms = 0\<rparr>]\<rparr>"

definition game_solved :: Game where
  "game_solved =
    game_committed\<lparr>guess_commitments := Map.empty, is_solved := True,
                     winner := Some PLAYER_B, pot := 0\<rparr>"

definition game_miscommitted :: Game where
  "game_miscommitted =
    game_revealed\<lparr>guess_commitments := [PLAYER_A \<mapsto> \<lparr>submission_hash = [], timestamp_ms = 0\<rparr>]\<rparr>"

section \<open>Properties\<close>

subsection \<open>The hash has 32 bytes\<close>

lemma length_keccak_round: "length (keccak_round A rc) = 25"
  by (simp add: keccak_round_def keccak_chi_def Let_def)

lemma length_keccak_f: "length A = 25 \<Longrightarrow> length (keccak_f A) = 25"
proof -
  have "length A = 25 \<Longrightarrow> length (foldl keccak_round A rcs) = 25" for rcs
    by (induction rcs arbitrary: A) (simp_all add: length_keccak_round)
  then show "length A = 25 \<Longrightarrow> length (keccak_f A) = 25"
    by (simp add: keccak_f_def)
qed

lemma length_keccak_xor_block: "length (keccak_xor_block A blk) = 25"
  by (simp add: keccak_xor_block_def)

lemma length_keccak_absorb: "length A = 25 \<Longrightarrow> length (keccak_absorb n A m) = 25"
  by (induction n arbitrary: A m) (simp_all add: length_keccak_f length_keccak_xor_block)

lemma length_bytes_of_lane: "length (bytes_of_lane w) = 8"
  by (simp add: bytes_of_lane_def)

lemma length_concat_lanes: "length (concat (map bytes_of_lane A)) = 8 * length A"
  by (induction A) (simp_all add: length_bytes_of_lane)

lemma length_keccak256: "length (keccak256 m) = 32"
  by (simp add: keccak256_def Let_def length_concat_lanes length_keccak_absorb)

lemma keccak256_not_Nil: "keccak256 m \<noteq> []"
  using length_keccak256 [of m] by auto

subsection \<open>The loops of \<open>create_game\<close>\<close>

lemma unat_succ_tile: "i < TOTAL_TILES \<Longrightarrow> unat (i + 1) = Suc (unat i)"
proof -
  assume "i < TOTAL_TILES"
  then have "unat i < unat TOTAL_TILES" by (simp add: word_less_nat_alt)
  then have "unat i + unat (1 :: u64) < 2 ^ LENGTH(64)" by (simp add: TOTAL_TILES_def)
  then show ?thesis using unat_add_lem [of i 1] by simp
qed

lemma none_keys_eq:
  "i \<le> TOTAL_TILES \<Longrightarrow> none_keys i acc = acc @ replicate (unat TOTAL_TILES - unat i) None"
proof (induction i acc rule: none_keys.induct)
  case (1 i acc)
  show ?case
  proof (cases "i < TOTAL_TILES")
    case True
    then have le: "i + 1 \<le> TOTAL_TILES" by (simp add: inc_le)
    have lt: "unat i < unat TOTAL_TILES" using True by (simp add: word_less_nat_alt)
    have u: "unat (i + 1) = unat i + 1" using unat_succ_tile [OF True] by simp
    from lt have "unat TOTAL_TILES - unat i = Suc (unat TOTAL_TILES - (unat i + 1))" by simp
    then have "replicate (unat TOTAL_TILES - unat i) (None :: bytes option)
        = None # replicate (unat TOTAL_TILES - (unat i + 1)) None"
      by simp
    with "1.IH" [OF True le] u True show ?thesis
      by (subst none_keys.simps) simp
  next
    case False
    with "1.prems" have "i = TOTAL_TILES" by simp
    then show ?thesis by (subst none_keys.simps) simp
  qed
qed

lemma none_keys_0: "none_keys 0 [] = replicate 100 None"
  using none_keys_eq [of 0 "[]"] by (simp add: TOTAL_TILES_def)

lemma convert_ids_eq:
  "length v = unat TOTAL_TILES \<Longrightarrow> \<forall>b \<in> set v. check_utf8 b \<Longrightarrow> i \<le> TOTAL_TILES
    \<Longrightarrow> convert_ids v i acc = Inr (acc @ drop (unat i) v)"
proof (induction v i acc rule: convert_ids.induct)
  case (1 v i acc)
  note len = "1.prems"(1) and ok = "1.prems"(2)
  show ?case
  proof (cases "i < TOTAL_TILES")
    case True
    then have lt: "unat i < length v" by (simp add: word_less_nat_alt len)
    have le: "i + 1 \<le> TOTAL_TILES" using True by (simp add: inc_le)
    have b: "vector_borrow v i = Inr (v ! unat i)" using lt by (simp add: vector_borrow_def)
    have "check_utf8 (v ! unat i)" using lt ok by simp
    then have u: "string_utf8 (v ! unat i) = Inr (v ! unat i)" by (simp add: string_utf8_def)
    have d: "drop (unat i) v = v ! unat i # drop (Suc (unat i)) v"
      using lt by (simp add: Cons_nth_drop_Suc)
    have "convert_ids v (i + 1) (acc @ [v ! unat i]) = Inr ((acc @ [v ! unat i]) @ drop (unat (i + 1)) v)"
      using "1.IH" [OF True b u len ok le] .
    then show ?thesis
      using True b u d unat_succ_tile [OF True] by (subst convert_ids.simps) simp
  next
    case False
    with "1.prems" have "i = TOTAL_TILES" by simp
    then show ?thesis using len by (subst convert_ids.simps) simp
  qed
qed

lemma create_game_Inr:
  assumes "create_game ah blob keys ids ctx = Inr (g, effs)"
  shows "decrypted_tile_keys g = replicate 100 None \<and> pot g = 0 \<and> \<not> is_solved g
    \<and> winner g = None \<and> guess_commitments g = Map.empty \<and> answer_hash g = ah"
  using assms
  by (auto simp: create_game_def Let_def none_keys_0 split: if_splits sum.splits)

lemma create_game_example:
  "create_game (keccak256 answer_sui) [] (replicate 100 []) (replicate 100 []) (ctx_of ADMIN)
    = Inr (game_created, [Emitted (GameCreated ([], 0))])"
proof -
  have "convert_ids (replicate 100 []) 0 [] = Inr (replicate 100 [])"
    using convert_ids_eq [of "replicate 100 []" 0 "[]"] by (simp add: TOTAL_TILES_def)
  then show ?thesis
    by (simp add: create_game_def TOTAL_TILES_def none_keys_0 game_created_def ctx_of_def
        object_new_def)
qed

subsection \<open>What each function returns\<close>

lemma solve_eq:
  "solve g a s gs clk ctx =
    (if is_solved g then Inl EGameAlreadySolved
     else case guess_commitments g (sender ctx) of
       None \<Rightarrow> Inl ENoCommitmentFound
     | Some c \<Rightarrow>
         if keccak256 (a @ s) = submission_hash c \<and> keccak256 a = answer_hash g
         then Inr (g\<lparr>guess_commitments := (guess_commitments g)(sender ctx := None),
                    is_solved := True, winner := Some (sender ctx), pot := 0\<rparr>,
                   [Transferred \<lparr>coin_id = (tx_hash ctx, ids_created ctx), coin_balance = pot g\<rparr> (sender ctx),
                    Emitted (GameSolved (uid g) (sender ctx) (pot g))])
         else Inl EIncorrectAnswer)"
  by (simp add: solve_def table_contains_def table_remove_def coin_take_def balance_split_def
      object_new_def Let_def split: option.splits)

lemma commit_guess_eq:
  "commit_guess g h clk ctx =
    (if is_solved g then Inl EGameAlreadySolved
     else Inr (g\<lparr>guess_commitments := (guess_commitments g)
                 (sender ctx \<mapsto> \<lparr>submission_hash = h, timestamp_ms = clock_timestamp_ms clk\<rparr>)\<rparr>, []))"
  by (simp add: commit_guess_def table_contains_def table_remove_def table_add_def Let_def
      split: option.splits)

lemma fulfill_reveal_eq:
  "fulfill_reveal cap g i k =
    (if unat i < length (decrypted_tile_keys g) then
       (case decrypted_tile_keys g ! unat i of
          None \<Rightarrow> Inr (g\<lparr>decrypted_tile_keys := (decrypted_tile_keys g)[unat i := Some k]\<rparr>,
                       [Emitted (TileRevealed (uid g) i k)])
        | Some old \<Rightarrow> Inr (g, []))
     else Inl EVectorIndexOutOfBounds)"
  by (simp add: fulfill_reveal_def vector_borrow_def option_is_none_def option_fill_def
      split: option.splits)

lemma request_reveal_Inr:
  assumes "request_reveal g i p ctx = Inr (g', effs)"
  shows "\<not> is_solved g \<and> coin_balance p = TILE_PRICE \<and> i < TOTAL_TILES
    \<and> unat i < length (decrypted_tile_keys g) \<and> decrypted_tile_keys g ! unat i = None
    \<and> unat (pot g) + unat (coin_balance p) < 2 ^ 64
    \<and> g' = g\<lparr>pot := pot g + coin_balance p\<rparr>
    \<and> effs = [Emitted (TileRevealRequested (uid g) i (sender ctx))]"
  using assms
  by (auto simp: request_reveal_def vector_borrow_def option_is_none_def balance_join_def
      coin_value_def coin_into_balance_def split: if_splits option.splits)

subsection \<open>What a transaction keeps\<close>

lemma run_is_solved: "run c g = Inr (g', effs) \<Longrightarrow> is_solved g \<Longrightarrow> is_solved g'"
  by (cases c)
     (auto simp: solve_eq commit_guess_eq fulfill_reveal_eq dest: request_reveal_Inr
       split: if_splits option.splits)

lemma apply_tx_is_solved: "is_solved g \<Longrightarrow> is_solved (fst (apply_tx c g))"
  by (auto simp: apply_tx_def split: sum.splits dest: run_is_solved)

lemma apply_txs_is_solved: "is_solved g \<Longrightarrow> is_solved (apply_txs cs g)"
  by (induction cs arbitrary: g) (simp_all add: apply_tx_is_solved)

lemma run_length_keys:
  "run c g = Inr (g', effs) \<Longrightarrow> length (decrypted_tile_keys g') = length (decrypted_tile_keys g)"
  by (cases c)
     (auto simp: solve_eq commit_guess_eq fulfill_reveal_eq dest: request_reveal_Inr
       split: if_splits option.splits)

lemma run_revealed_key:
  "run c g = Inr (g', effs) \<Longrightarrow> n < length (decrypted_tile_keys g)
    \<Longrightarrow> decrypted_tile_keys g ! n = Some k \<Longrightarrow> decrypted_tile_keys g' ! n = Some k"
  by (cases c)
     (auto simp: solve_eq commit_guess_eq fulfill_reveal_eq nth_list_update
       dest: request_reveal_Inr split: if_splits option.splits)

lemma run_settled:
  "run c g = Inr (g', effs) \<Longrightarrow> is_solved g \<Longrightarrow> winner g' = winner g \<and> pot g' = pot g"
  by (cases c)
     (auto simp: solve_eq commit_guess_eq fulfill_reveal_eq dest: request_reveal_Inr
       split: if_splits option.splits)

lemma run_solving:
  "run c g = Inr (g', effs) \<Longrightarrow> \<not> is_solved g \<Longrightarrow> is_solved g'
    \<Longrightarrow> winner g' \<noteq> None \<and> pot g' = 0"
  by (cases c)
     (auto simp: solve_eq commit_guess_eq fulfill_reveal_eq dest: request_reveal_Inr
       split: if_splits option.splits)

lemma apply_tx_cases:
  obtains e where "run c g = Inl e" and "apply_tx c g = (g, Aborted e)"
  | g' effs where "run c g = Inr (g', effs)" and "apply_tx c g = (g', Executed effs)"
  by (cases "run c g") (auto simp: apply_tx_def)

lemma reachable_inv:
  "reachable g \<Longrightarrow>
    length (decrypted_tile_keys g) = 100 \<and> (is_solved g \<longrightarrow> winner g \<noteq> None \<and> pot g = 0)"
proof (induction rule: reachable.induct)
  case (created ah blob keys ids ctx g effs)
  then show ?case using create_game_Inr [OF created] by simp
next
  case (stepped g c)
  show ?case
  proof (rule apply_tx_cases [of c g])
    fix e assume "apply_tx c g = (g, Aborted e)"
    with stepped.IH show ?thesis by simp
  next
    fix g' effs assume r: "run c g = Inr (g', effs)" and a: "apply_tx c g = (g', Executed effs)"
    have "length (decrypted_tile_keys g') = 100"
      using run_length_keys [OF r] stepped.IH by simp
    moreover have "winner g' \<noteq> None \<and> pot g' = 0" if s: "is_solved g'"
    proof (cases "is_solved g")
      case True
      then show ?thesis using run_settled [OF r True] stepped.IH by simp
    next
      case False
      then show ?thesis using run_solving [OF r False s] by simp
    qed
    ultimately show ?thesis using a by simp
  qed
qed

lemma reachable_apply_txs: "reachable g \<Longrightarrow> reachable (apply_txs cs g)"
  by (induction cs arbitrary: g) (simp_all add: reachable.stepped)

lemma apply_txs_revealed_key:
  "n < length (decrypted_tile_keys g) \<Longrightarrow> decrypted_tile_keys g ! n = Some k
    \<Longrightarrow> decrypted_tile_keys (apply_txs cs g) ! n = Some k"
proof (induction cs arbitrary: g)
  case Nil
  then show ?case by simp
next
  case (Cons c cs)
  have "n < length (decrypted_tile_keys (fst (apply_tx c g)))
      \<and> decrypted_tile_keys (fst (apply_tx c g)) ! n = Some k"
    by (rule apply_tx_cases [of c g])
       (use Cons.prems in \<open>auto dest: run_length_keys run_revealed_key\<close>)
  then show ?case using Cons.IH by simp
qed

subsection \<open>The game played through, step by step\<close>

lemma request_example:
  "request_reveal game_created 0 exact_payment (ctx_of PLAYER_A)
    = Inr (game_requested, [Emitted (TileRevealRequested ([], 0) 0 PLAYER_A)])"
  by (simp add: request_reveal_def game_created_def game_requested_def exact_payment_def
      ctx_of_def coin_value_def coin_into_balance_def TILE_PRICE_def TOTAL_TILES_def
      vector_borrow_def option_is_none_def balance_join_def)

lemma fulfill_example:
  "fulfill_reveal oracle_cap game_requested 0 key0
    = Inr (game_revealed, [Emitted (TileRevealed ([], 0) 0 key0)])"
  by (simp add: fulfill_reveal_eq game_created_def game_requested_def game_revealed_def)

lemma commit_example:
  "commit_guess game_revealed (keccak256 (answer_sui @ salt1)) clock0 (ctx_of PLAYER_B)
    = Inr (game_committed, [])"
  by (simp add: commit_guess_eq game_created_def game_requested_def game_revealed_def
      game_committed_def ctx_of_def clock0_def)


lemma solve_example:
  "solve game_committed answer_sui salt1 [] clock0 (ctx_of PLAYER_B)
    = Inr (game_solved,
           [Transferred \<lparr>coin_id = ([], 0), coin_balance = 1000\<rparr> PLAYER_B,
            Emitted (GameSolved ([], 0) PLAYER_B 1000)])"
  by (simp add: solve_eq game_created_def game_requested_def game_revealed_def
      game_committed_def game_solved_def ctx_of_def)

lemma played_through:
  "apply_txs [RequestReveal 0 exact_payment (ctx_of PLAYER_A),
              FulfillReveal oracle_cap 0 key0,
              CommitGuess (keccak256 (answer_sui @ salt1)) clock0 (ctx_of PLAYER_B),
              Solve answer_sui salt1 [] clock0 (ctx_of PLAYER_B)] game_created = game_solved"
  by (simp add: apply_tx_def request_example fulfill_example commit_example solve_example)

lemma reachable_game_created: "reachable game_created"
  using create_game_example by (rule reachable.created)

lemma reachable_game_solved: "reachable game_solved"
  using reachable_apply_txs [OF reachable_game_created] played_through by metis

lemma reachable_game_revealed: "reachable game_revealed"
proof -
  have "apply_txs [RequestReveal 0 exact_payment (ctx_of PLAYER_A),
              FulfillReveal oracle_cap 0 key0] game_created = game_revealed"
    by (simp add: apply_tx_def request_example fulfill_example)
  then show ?thesis using reachable_apply_txs [OF reachable_game_created] by metis
qed



text \<open>Facts about the states of the game played through.\<close>

lemma solve_miscommitted:
  "solve game_miscommitted answer_moon salt1 [] clock0 (ctx_of PLAYER_A) = Inl EIncorrectAnswer"
  using keccak256_not_Nil [of "answer_moon @ salt1"]
  by (simp add: solve_eq game_created_def game_requested_def game_revealed_def
      game_miscommitted_def ctx_of_def)

lemma commitment_miscommitted:
  "guess_commitments game_miscommitted PLAYER_A = Some \<lparr>submission_hash = [], timestamp_ms = 0\<rparr>"
  by (simp add: game_miscommitted_def)


lemma reveal_state_game_revealed:
  "\<not> is_solved game_revealed \<and> decrypted_tile_keys game_revealed ! unat (0 :: u64) = Some key0
    \<and> length (decrypted_tile_keys game_revealed) = 100"
  by (simp add: game_revealed_def game_requested_def game_created_def)

lemma is_solved_game_solved: "is_solved game_solved"
  by (simp add: game_solved_def)

lemma no_commitment_game_created: "guess_commitments game_created PLAYER_A = None"
  by (simp add: game_created_def)

lemma not_solved_game_created: "\<not> is_solved game_created"
  by (simp add: game_created_def)

lemma not_solved_game_miscommitted: "\<not> is_solved game_miscommitted"
  by (simp add: game_miscommitted_def game_revealed_def game_requested_def game_created_def)

subsection \<open>Calls that abort\<close>

lemma request_reveal_rejected:
  assumes "is_solved g \<or> coin_value payment \<noteq> TILE_PRICE \<or> \<not> tile_index < TOTAL_TILES
      \<or> decrypted_tile_keys g ! unat tile_index \<noteq> None"
  shows "\<exists>e. request_reveal g tile_index payment ctx = Inl e"
  using assms
  by (auto simp: request_reveal_def vector_borrow_def option_is_none_def split: option.splits)

lemma solve_rejected:
  assumes "is_solved g \<or> guess_commitments g (sender ctx) = None
      \<or> (\<exists>cm. guess_commitments g (sender ctx) = Some cm \<and> submission_hash cm \<noteq> keccak256 (a @ s))
      \<or> answer_hash g \<noteq> keccak256 a"
  shows "\<exists>e. solve g a s gs clk ctx = Inl e"
  using assms by (auto simp: solve_eq split: option.splits)

section \<open>The claims\<close>

text \<open>
  C1. When \<open>solve\<close> returns for a caller, the game is solved, the caller is the winner,
  the whole pot as it stood before the call (not a fixed amount) is transferred to the
  caller and the pot is zero; from then on, whatever transactions come in between, every
  \<open>solve\<close> by any caller with any arguments aborts with \<open>EGameAlreadySolved\<close>.
\<close>

theorem solve_settles_once:
  assumes "solve g answer_input user_salt game_salt clock ctx = Inr (g', effs)"
  shows "is_solved g' \<and> winner g' = Some (sender ctx) \<and> pot g' = 0
    \<and> effs = [Transferred \<lparr>coin_id = fst (object_new ctx), coin_balance = pot g\<rparr> (sender ctx),
              Emitted (GameSolved (uid g) (sender ctx) (pot g))]
    \<and> (\<forall>cs a s gs clk ctx'.
          solve (apply_txs cs g') a s gs clk ctx' = Inl EGameAlreadySolved
          \<and> apply_tx (Solve a s gs clk ctx') (apply_txs cs g')
              = (apply_txs cs g', Aborted EGameAlreadySolved))"
proof -
  from assms have g': "g' = g\<lparr>guess_commitments := (guess_commitments g)(sender ctx := None),
        is_solved := True, winner := Some (sender ctx), pot := 0\<rparr>"
    and effs: "effs = [Transferred \<lparr>coin_id = fst (object_new ctx), coin_balance = pot g\<rparr> (sender ctx),
              Emitted (GameSolved (uid g) (sender ctx) (pot g))]"
    by (auto simp: solve_eq object_new_def split: if_splits option.splits)
  from g' have s: "is_solved g'" by simp
  have "solve (apply_txs cs g') a s gs clk ctx' = Inl EGameAlreadySolved" for cs a s gs clk ctx'
    using apply_txs_is_solved [OF s, of cs] by (simp add: solve_eq)
  then show ?thesis using g' effs by (simp add: apply_tx_def)
qed

text \<open>Player B solves the game played through: the pot of 1000 goes to B.\<close>

theorem solve_settles_once_witness:
  "solve game_committed answer_sui salt1 [] clock0 (ctx_of PLAYER_B)
      = Inr (game_solved,
             [Transferred \<lparr>coin_id = ([], 0), coin_balance = 1000\<rparr> PLAYER_B,
              Emitted (GameSolved ([], 0) PLAYER_B 1000)])
    \<and> pot game_committed = 1000
    \<and> is_solved game_solved \<and> winner game_solved = Some PLAYER_B \<and> pot game_solved = 0
    \<and> solve game_solved answer_sui salt1 [] clock0 (ctx_of PLAYER_B) = Inl EGameAlreadySolved
    \<and> solve game_solved answer_moon [] [] clock0 (ctx_of PLAYER_A) = Inl EGameAlreadySolved"
proof -
  note t = solve_settles_once [OF solve_example]
  from t have a: "\<And>cs a s gs clk ctx'.
      solve (apply_txs cs game_solved) a s gs clk ctx' = Inl EGameAlreadySolved"
    by blast
  have p: "pot game_committed = 1000"
    by (simp add: game_committed_def game_revealed_def game_requested_def)
  from t have "is_solved game_solved \<and> winner game_solved = Some PLAYER_B \<and> pot game_solved = 0"
    by (simp add: ctx_of_def)
  then show ?thesis using solve_example p a [of "[]"] by simp
qed




text \<open>
  C3. \<open>request_reveal\<close>, \<open>commit_guess\<close> and \<open>solve\<close> are atomic. A call whose body
  aborts leaves the stored game as it was in every field, the table of commitments and the
  pot included, and has no effect (no event, no transfer); and each of the preconditions
  of the three functions, when it fails, makes the call abort: a solved game, a payment
  other than the tile price, a tile index out of range or a tile already revealed for
  \<open>request_reveal\<close>; a solved game for \<open>commit_guess\<close>; a solved game, no commitment, a
  digest that does not match or a wrong answer for \<open>solve\<close>.
\<close>

theorem rejected_call_changes_nothing:
  "(run c g = Inl e \<longrightarrow> apply_tx c g = (g, Aborted e))
   \<and> (is_solved g \<or> coin_value payment \<noteq> TILE_PRICE \<or> \<not> tile_index < TOTAL_TILES
        \<or> decrypted_tile_keys g ! unat tile_index \<noteq> None \<longrightarrow>
       (\<exists>e'. apply_tx (RequestReveal tile_index payment ctx) g = (g, Aborted e')))
   \<and> (is_solved g \<longrightarrow> apply_tx (CommitGuess h clk ctx) g = (g, Aborted EGameAlreadySolved))
   \<and> (is_solved g \<or> guess_commitments g (sender ctx) = None
        \<or> (\<exists>cm. guess_commitments g (sender ctx) = Some cm
              \<and> submission_hash cm \<noteq> keccak256 (a @ s))
        \<or> answer_hash g \<noteq> keccak256 a \<longrightarrow>
       (\<exists>e'. apply_tx (Solve a s gs clk ctx) g = (g, Aborted e')))"
proof (intro conjI impI)
  assume "run c g = Inl e"
  then show "apply_tx c g = (g, Aborted e)" by (simp add: apply_tx_def)
next
  assume "is_solved g \<or> coin_value payment \<noteq> TILE_PRICE \<or> \<not> tile_index < TOTAL_TILES
        \<or> decrypted_tile_keys g ! unat tile_index \<noteq> None"
  from request_reveal_rejected [OF this, of ctx]
  show "\<exists>e'. apply_tx (RequestReveal tile_index payment ctx) g = (g, Aborted e')"
    by (auto simp: apply_tx_def)
next
  assume "is_solved g"
  then show "apply_tx (CommitGuess h clk ctx) g = (g, Aborted EGameAlreadySolved)"
    by (simp add: apply_tx_def commit_guess_eq)
next
  assume "is_solved g \<or> guess_commitments g (sender ctx) = None
        \<or> (\<exists>cm. guess_commitments g (sender ctx) = Some cm
              \<and> submission_hash cm \<noteq> keccak256 (a @ s))
        \<or> answer_hash g \<noteq> keccak256 a"
  from solve_rejected [OF this, of gs clk]
  show "\<exists>e'. apply_tx (Solve a s gs clk ctx) g = (g, Aborted e')"
    by (auto simp: apply_tx_def)
qed

text \<open>
  Player A's \<open>solve\<close> against the empty digest aborts after the body has taken the
  commitment out of the table: the stored game still holds it. A request for the revealed
  tile 0, and a commit and a solve on the solved game, abort as well.
\<close>

theorem rejected_call_changes_nothing_witness:
  "run (Solve answer_moon salt1 [] clock0 (ctx_of PLAYER_A)) game_miscommitted = Inl EIncorrectAnswer
   \<and> apply_tx (Solve answer_moon salt1 [] clock0 (ctx_of PLAYER_A)) game_miscommitted
       = (game_miscommitted, Aborted EIncorrectAnswer)
   \<and> guess_commitments game_miscommitted PLAYER_A = Some \<lparr>submission_hash = [], timestamp_ms = 0\<rparr>
   \<and> decrypted_tile_keys game_revealed ! unat (0 :: u64) \<noteq> None
   \<and> (\<exists>e'. apply_tx (RequestReveal 0 exact_payment (ctx_of PLAYER_B)) game_revealed
          = (game_revealed, Aborted e'))
   \<and> is_solved game_solved
   \<and> apply_tx (CommitGuess [] clock0 (ctx_of PLAYER_A)) game_solved
       = (game_solved, Aborted EGameAlreadySolved)
   \<and> (\<exists>e'. apply_tx (Solve answer_sui salt1 [] clock0 (ctx_of PLAYER_B)) game_solved
          = (game_solved, Aborted e'))"
proof -
  have r: "run (Solve answer_moon salt1 [] clock0 (ctx_of PLAYER_A)) game_miscommitted
      = Inl EIncorrectAnswer"
    by (simp add: solve_miscommitted)
  have k: "decrypted_tile_keys game_revealed ! unat (0 :: u64) \<noteq> None"
    using reveal_state_game_revealed by simp
  from rejected_call_changes_nothing
    [where c = "Solve answer_moon salt1 [] clock0 (ctx_of PLAYER_A)" and g = game_miscommitted
       and e = EIncorrectAnswer] r
  have 1: "apply_tx (Solve answer_moon salt1 [] clock0 (ctx_of PLAYER_A)) game_miscommitted
       = (game_miscommitted, Aborted EIncorrectAnswer)"
    by blast
  from rejected_call_changes_nothing
    [where g = game_revealed and tile_index = 0 and payment = exact_payment
       and ctx = "ctx_of PLAYER_B"] k
  have 2: "\<exists>e'. apply_tx (RequestReveal 0 exact_payment (ctx_of PLAYER_B)) game_revealed
          = (game_revealed, Aborted e')"
    by blast
  from rejected_call_changes_nothing
    [where g = game_solved and h = "[]" and clk = clock0 and ctx = "ctx_of PLAYER_A"]
    is_solved_game_solved
  have 3: "apply_tx (CommitGuess [] clock0 (ctx_of PLAYER_A)) game_solved
       = (game_solved, Aborted EGameAlreadySolved)"
    by blast
  from rejected_call_changes_nothing
    [where g = game_solved and a = answer_sui and s = salt1 and gs = "[]" and clk = clock0
       and ctx = "ctx_of PLAYER_B"]
    is_solved_game_solved
  have 4: "\<exists>e'. apply_tx (Solve answer_sui salt1 [] clock0 (ctx_of PLAYER_B)) game_solved
          = (game_solved, Aborted e')"
    by blast
  show ?thesis using r 1 2 3 4 k commitment_miscommitted is_solved_game_solved by blast
qed

text \<open>
  C4. Once the slot of tile \<open>i\<close> in \<open>decrypted_tile_keys\<close> holds \<open>Some key\<close>, it holds
  \<open>Some key\<close> after any sequence of transactions; a further \<open>fulfill_reveal\<close> for the
  tile returns without an error, changes nothing and emits no event.
\<close>

theorem revealed_key_is_final:
  assumes "reachable g" and "i < TOTAL_TILES"
    and "decrypted_tile_keys g ! unat i = Some key"
  shows "(\<forall>cs. decrypted_tile_keys (apply_txs cs g) ! unat i = Some key)
    \<and> fulfill_reveal cap g i k = Inr (g, [])
    \<and> apply_tx (FulfillReveal cap i k) g = (g, Executed [])"
proof -
  have "unat i < unat TOTAL_TILES" using assms(2) by (simp add: word_less_nat_alt)
  then have lt: "unat i < length (decrypted_tile_keys g)"
    using reachable_inv [OF assms(1)] by (simp add: TOTAL_TILES_def)
  have "fulfill_reveal cap g i k = Inr (g, [])"
    using lt assms(3) by (simp add: fulfill_reveal_eq)
  then show ?thesis
    using apply_txs_revealed_key [OF lt assms(3)] by (simp add: apply_tx_def)
qed

text \<open>
  Tile 0 of the game played through keeps \<open>key0\<close>, whatever the oracle sends later.
\<close>

theorem revealed_key_is_final_witness:
  "reachable game_revealed \<and> (0 :: u64) < TOTAL_TILES
   \<and> decrypted_tile_keys game_revealed ! unat (0 :: u64) = Some key0
   \<and> decrypted_tile_keys
        (apply_txs [FulfillReveal oracle_cap 0 salt1,
                    CommitGuess (keccak256 (answer_sui @ salt1)) clock0 (ctx_of PLAYER_B),
                    Solve answer_sui salt1 [] clock0 (ctx_of PLAYER_B),
                    FulfillReveal oracle_cap 0 answer_moon] game_revealed) ! unat (0 :: u64)
       = Some key0
   \<and> fulfill_reveal oracle_cap game_revealed 0 salt1 = Inr (game_revealed, [])
   \<and> apply_tx (FulfillReveal oracle_cap 0 salt1) game_revealed = (game_revealed, Executed [])"
proof -
  have t: "(0 :: u64) < TOTAL_TILES" by (simp add: TOTAL_TILES_def)
  have k: "decrypted_tile_keys game_revealed ! unat (0 :: u64) = Some key0"
    using reveal_state_game_revealed by simp
  from revealed_key_is_final [OF reachable_game_revealed t k, of oracle_cap salt1]
  show ?thesis using reachable_game_revealed t k by blast
qed

text \<open>
  C5. \<open>solve\<close> returns only for a caller who has a commitment in the table whose digest
  is \<open>keccak256 (answer @ user_salt)\<close>, for the answer and the salt of the call. Under
  the precondition of \<open>solve\<close> that the game is not solved, a caller without a commitment
  gets \<open>ENoCommitmentFound\<close> and a caller whose digest is another one gets
  \<open>EIncorrectAnswer\<close>. A solved game is turned away before the table is read, with
  \<open>EGameAlreadySolved\<close>.
\<close>

theorem solve_needs_matching_commitment:
  "(solve g a s gs clk ctx = Inr (g', effs) \<longrightarrow>
      (\<exists>cm. guess_commitments g (sender ctx) = Some cm \<and> submission_hash cm = keccak256 (a @ s)))
   \<and> (\<not> is_solved g \<and> guess_commitments g (sender ctx) = None \<longrightarrow>
      solve g a s gs clk ctx = Inl ENoCommitmentFound)
   \<and> (\<not> is_solved g \<and> guess_commitments g (sender ctx) = Some c
        \<and> submission_hash c \<noteq> keccak256 (a @ s) \<longrightarrow>
      solve g a s gs clk ctx = Inl EIncorrectAnswer)
   \<and> (is_solved g \<longrightarrow> solve g a s gs clk ctx = Inl EGameAlreadySolved)"
  by (auto simp: solve_eq split: if_splits option.splits)

text \<open>
  The four cases on the game played through: B's matching commitment, A without a
  commitment, A with the empty digest, and the solved game.
\<close>

theorem solve_needs_matching_commitment_witness:
  "solve game_committed answer_sui salt1 [] clock0 (ctx_of PLAYER_B)
      = Inr (game_solved,
             [Transferred \<lparr>coin_id = ([], 0), coin_balance = 1000\<rparr> PLAYER_B,
              Emitted (GameSolved ([], 0) PLAYER_B 1000)])
   \<and> (\<exists>cm. guess_commitments game_committed PLAYER_B = Some cm
          \<and> submission_hash cm = keccak256 (answer_sui @ salt1))
   \<and> \<not> is_solved game_created \<and> guess_commitments game_created PLAYER_A = None
   \<and> solve game_created answer_sui salt1 [] clock0 (ctx_of PLAYER_A) = Inl ENoCommitmentFound
   \<and> \<not> is_solved game_miscommitted
   \<and> guess_commitments game_miscommitted PLAYER_A = Some \<lparr>submission_hash = [], timestamp_ms = 0\<rparr>
   \<and> [] \<noteq> keccak256 (answer_moon @ salt1)
   \<and> solve game_miscommitted answer_moon salt1 [] clock0 (ctx_of PLAYER_A) = Inl EIncorrectAnswer
   \<and> is_solved game_solved
   \<and> solve game_solved answer_sui salt1 [] clock0 (ctx_of PLAYER_B) = Inl EGameAlreadySolved"
proof -
  have h: "[] \<noteq> keccak256 (answer_moon @ salt1)"
    using keccak256_not_Nil [of "answer_moon @ salt1"] by simp
  from solve_needs_matching_commitment
    [where g = game_committed and a = answer_sui and s = salt1 and gs = "[]" and clk = clock0
       and ctx = "ctx_of PLAYER_B" and g' = game_solved] solve_example
  have 1: "\<exists>cm. guess_commitments game_committed PLAYER_B = Some cm
          \<and> submission_hash cm = keccak256 (answer_sui @ salt1)"
    by (simp add: ctx_of_def)
  from solve_needs_matching_commitment
    [where g = game_created and a = answer_sui and s = salt1 and gs = "[]" and clk = clock0
       and ctx = "ctx_of PLAYER_A"] not_solved_game_created no_commitment_game_created
  have 2: "solve game_created answer_sui salt1 [] clock0 (ctx_of PLAYER_A) = Inl ENoCommitmentFound"
    by (simp add: ctx_of_def)
  from solve_needs_matching_commitment
    [where g = game_miscommitted and a = answer_moon and s = salt1 and gs = "[]" and clk = clock0
       and ctx = "ctx_of PLAYER_A" and c = "\<lparr>submission_hash = [], timestamp_ms = 0\<rparr>"]
    not_solved_game_miscommitted commitment_miscommitted h
  have 3: "solve game_miscommitted answer_moon salt1 [] clock0 (ctx_of PLAYER_A) = Inl EIncorrectAnswer"
    by (simp add: ctx_of_def)
  from solve_needs_matching_commitment
    [where g = game_solved and a = answer_sui and s = salt1 and gs = "[]" and clk = clock0
       and ctx = "ctx_of PLAYER_B"] is_solved_game_solved
  have 4: "solve game_solved answer_sui salt1 [] clock0 (ctx_of PLAYER_B) = Inl EGameAlreadySolved"
    by simp
  show ?thesis
    using 1 2 3 4 h solve_example not_solved_game_created no_commitment_game_created
      not_solved_game_miscommitted commitment_miscommitted is_solved_game_solved
    by blast
qed

text \<open>
  C6. \<open>game_salt\<close> has no effect on \<open>solve\<close>: two calls that differ in it only have the
  same result, abort code or new game and effects alike. The call returns exactly when the
  game is not solved, the caller's digest is \<open>keccak256 (answer @ user_salt)\<close> and
  \<open>answer_hash\<close> is the hash of the answer alone.
\<close>

theorem solve_ignores_game_salt:
  "solve g a s game_salt clk ctx = solve g a s game_salt' clk ctx
   \<and> apply_tx (Solve a s game_salt clk ctx) g = apply_tx (Solve a s game_salt' clk ctx) g
   \<and> ((\<exists>g' effs. solve g a s game_salt clk ctx = Inr (g', effs)) =
       (\<not> is_solved g
        \<and> (\<exists>cm. guess_commitments g (sender ctx) = Some cm
              \<and> submission_hash cm = keccak256 (a @ s))
        \<and> answer_hash g = keccak256 a))"
  by (auto simp: apply_tx_def solve_eq split: option.splits)

text \<open>
  C7. On a solved game, \<open>fulfill_reveal\<close> for a tile below \<open>TOTAL_TILES\<close> whose slot is
  \<open>None\<close> does not abort: it fills the slot with the key and emits \<open>TileRevealed\<close>.
\<close>

theorem fulfill_reveal_after_solved:
  assumes "reachable g" and "is_solved g" and "i < TOTAL_TILES"
    and "decrypted_tile_keys g ! unat i = None"
  shows "fulfill_reveal cap g i k
      = Inr (g\<lparr>decrypted_tile_keys := (decrypted_tile_keys g)[unat i := Some k]\<rparr>,
             [Emitted (TileRevealed (uid g) i k)])
    \<and> decrypted_tile_keys (fst (apply_tx (FulfillReveal cap i k) g)) ! unat i = Some k
    \<and> snd (apply_tx (FulfillReveal cap i k) g) = Executed [Emitted (TileRevealed (uid g) i k)]"
proof -
  have "unat i < unat TOTAL_TILES" using assms(3) by (simp add: word_less_nat_alt)
  then have lt: "unat i < length (decrypted_tile_keys g)"
    using reachable_inv [OF assms(1)] by (simp add: TOTAL_TILES_def)
  then show ?thesis using assms(4) by (simp add: apply_tx_def fulfill_reveal_eq)
qed

text \<open>
  Tile 1 of the solved game is revealed after the game is over.
\<close>

theorem fulfill_reveal_after_solved_witness:
  "reachable game_solved \<and> is_solved game_solved \<and> (1 :: u64) < TOTAL_TILES
   \<and> decrypted_tile_keys game_solved ! unat (1 :: u64) = None
   \<and> fulfill_reveal oracle_cap game_solved 1 salt1
       = Inr (game_solved\<lparr>decrypted_tile_keys := (decrypted_tile_keys game_solved)[unat (1 :: u64) := Some salt1]\<rparr>,
              [Emitted (TileRevealed (uid game_solved) 1 salt1)])
   \<and> decrypted_tile_keys (fst (apply_tx (FulfillReveal oracle_cap 1 salt1) game_solved)) ! unat (1 :: u64)
       = Some salt1"
proof -
  have t: "(1 :: u64) < TOTAL_TILES" by (simp add: TOTAL_TILES_def)
  have n: "decrypted_tile_keys game_solved ! unat (1 :: u64) = None"
    by (simp add: game_solved_def game_committed_def game_revealed_def)
  from fulfill_reveal_after_solved [OF reachable_game_solved is_solved_game_solved t n,
      of oracle_cap salt1]
  show ?thesis using reachable_game_solved is_solved_game_solved t n by blast
qed

text \<open>
  C8. \<open>request_reveal\<close> with a payment whose value is not \<open>TILE_PRICE\<close> aborts, for every
  tile index, caller and game, solved or not (with \<open>EGameAlreadySolved\<close> on a solved game,
  with \<open>EInvalidPayment\<close> otherwise); the pot is unchanged.
\<close>

theorem request_reveal_wrong_payment_rejected:
  assumes "coin_value payment \<noteq> TILE_PRICE"
  shows "request_reveal g i payment ctx
      = Inl (if is_solved g then EGameAlreadySolved else EInvalidPayment)
    \<and> apply_tx (RequestReveal i payment ctx) g
      = (g, Aborted (if is_solved g then EGameAlreadySolved else EInvalidPayment))
    \<and> pot (fst (apply_tx (RequestReveal i payment ctx) g)) = pot g"
  using assms by (simp add: apply_tx_def request_reveal_def)

text \<open>
  One unit less and one unit more than the price, on the new game and on the solved one.
\<close>

theorem request_reveal_wrong_payment_rejected_witness:
  "coin_value \<lparr>coin_id = ([], 2), coin_balance = 999\<rparr> \<noteq> TILE_PRICE
   \<and> apply_tx (RequestReveal 0 \<lparr>coin_id = ([], 2), coin_balance = 999\<rparr> (ctx_of PLAYER_A)) game_created
       = (game_created, Aborted EInvalidPayment)
   \<and> coin_value \<lparr>coin_id = ([], 3), coin_balance = 1001\<rparr> \<noteq> TILE_PRICE
   \<and> apply_tx (RequestReveal 0 \<lparr>coin_id = ([], 3), coin_balance = 1001\<rparr> (ctx_of PLAYER_B)) game_created
       = (game_created, Aborted EInvalidPayment)
   \<and> apply_tx (RequestReveal 1 \<lparr>coin_id = ([], 3), coin_balance = 1001\<rparr> (ctx_of PLAYER_B)) game_solved
       = (game_solved, Aborted EGameAlreadySolved)"
proof -
  have u: "coin_value \<lparr>coin_id = ([], 2), coin_balance = 999\<rparr> \<noteq> TILE_PRICE"
    by (simp add: coin_value_def TILE_PRICE_def)
  have v: "coin_value \<lparr>coin_id = ([], 3), coin_balance = 1001\<rparr> \<noteq> TILE_PRICE"
    by (simp add: coin_value_def TILE_PRICE_def)
  show ?thesis
    using u v
      request_reveal_wrong_payment_rejected [OF u, of game_created 0 "ctx_of PLAYER_A"]
      request_reveal_wrong_payment_rejected [OF v, of game_created 0 "ctx_of PLAYER_B"]
      request_reveal_wrong_payment_rejected [OF v, of game_solved 1 "ctx_of PLAYER_B"]
      not_solved_game_created is_solved_game_solved
    by simp
qed

text \<open>
  C9. In every state a game reaches from \<open>create_game\<close> by any sequence of
  transactions, a solved game has a winner and an empty pot.
\<close>

theorem solved_game_has_winner_and_empty_pot:
  assumes "create_game ah blob keys ids ctx = Inr (g0, effs)"
    and "is_solved (apply_txs cs g0)"
  shows "(\<exists>p. winner (apply_txs cs g0) = Some p) \<and> pot (apply_txs cs g0) = 0"
proof -
  have "reachable (apply_txs cs g0)"
    using reachable.created [OF assms(1)] by (rule reachable_apply_txs)
  then show ?thesis using reachable_inv assms(2) by auto
qed

text \<open>
  The game played through, from its creation to the state where B has won.
\<close>

theorem solved_game_has_winner_and_empty_pot_witness:
  "create_game (keccak256 answer_sui) [] (replicate 100 []) (replicate 100 []) (ctx_of ADMIN)
      = Inr (game_created, [Emitted (GameCreated ([], 0))])
   \<and> apply_txs [RequestReveal 0 exact_payment (ctx_of PLAYER_A),
              FulfillReveal oracle_cap 0 key0,
              CommitGuess (keccak256 (answer_sui @ salt1)) clock0 (ctx_of PLAYER_B),
              Solve answer_sui salt1 [] clock0 (ctx_of PLAYER_B)] game_created = game_solved
   \<and> is_solved game_solved
   \<and> (\<exists>p. winner game_solved = Some p) \<and> pot game_solved = 0"
proof -
  let ?cs = "[RequestReveal 0 exact_payment (ctx_of PLAYER_A),
              FulfillReveal oracle_cap 0 key0,
              CommitGuess (keccak256 (answer_sui @ salt1)) clock0 (ctx_of PLAYER_B),
              Solve answer_sui salt1 [] clock0 (ctx_of PLAYER_B)]"
  have s: "is_solved (apply_txs ?cs game_created)"
    using played_through is_solved_game_solved by simp
  from solved_game_has_winner_and_empty_pot [OF create_game_example s]
  show ?thesis using create_game_example played_through is_solved_game_solved by simp
qed

text \<open>
  C10. \<open>fulfill_reveal\<close> has no check of \<open>tile_index\<close> of its own. On a game that
  exists, an index of \<open>TOTAL_TILES\<close> or more aborts in the vector borrow, which is not an
  abort code of the module and in particular not \<open>EInvalidTileIndex\<close>, and the game is
  unchanged; with an index below \<open>TOTAL_TILES\<close> the borrow is in range and the call
  returns.
\<close>

theorem fulfill_reveal_index_bounds:
  assumes "reachable g"
  shows "(TOTAL_TILES \<le> i \<longrightarrow>
      fulfill_reveal cap g i k = Inl EVectorIndexOutOfBounds
      \<and> fulfill_reveal cap g i k \<noteq> Inl EInvalidTileIndex
      \<and> abort_value EVectorIndexOutOfBounds = None
      \<and> apply_tx (FulfillReveal cap i k) g = (g, Aborted EVectorIndexOutOfBounds))
    \<and> (i < TOTAL_TILES \<longrightarrow>
      (\<exists>key_ref. vector_borrow (decrypted_tile_keys g) i = Inr key_ref)
      \<and> (\<exists>g' effs. fulfill_reveal cap g i k = Inr (g', effs)))"
proof -
  have len: "length (decrypted_tile_keys g) = unat TOTAL_TILES"
    using reachable_inv [OF assms] by (simp add: TOTAL_TILES_def)
  have "fulfill_reveal cap g i k = Inl EVectorIndexOutOfBounds" if "TOTAL_TILES \<le> i"
    using that len by (simp add: fulfill_reveal_eq word_le_nat_alt)
  moreover have "(\<exists>key_ref. vector_borrow (decrypted_tile_keys g) i = Inr key_ref)
      \<and> (\<exists>g' effs. fulfill_reveal cap g i k = Inr (g', effs))" if "i < TOTAL_TILES"
    using that len
    by (simp add: fulfill_reveal_eq vector_borrow_def word_less_nat_alt split: option.splits)
  ultimately show ?thesis by (simp add: apply_tx_def abort_value_def)
qed

text \<open>
  Index 100 and index 99 on the new game.
\<close>

theorem fulfill_reveal_index_bounds_witness:
  "reachable game_created \<and> TOTAL_TILES \<le> 100
   \<and> fulfill_reveal oracle_cap game_created 100 key0 = Inl EVectorIndexOutOfBounds
   \<and> apply_tx (FulfillReveal oracle_cap 100 key0) game_created
       = (game_created, Aborted EVectorIndexOutOfBounds)
   \<and> (99 :: u64) < TOTAL_TILES
   \<and> (\<exists>g' effs. fulfill_reveal oracle_cap game_created 99 key0 = Inr (g', effs))"
proof -
  have a: "TOTAL_TILES \<le> 100" and b: "(99 :: u64) < TOTAL_TILES"
    by (simp_all add: TOTAL_TILES_def)
  show ?thesis
    using a b reachable_game_created
      fulfill_reveal_index_bounds [OF reachable_game_created, of 100 oracle_cap key0]
      fulfill_reveal_index_bounds [OF reachable_game_created, of 99 oracle_cap key0]
    by blast
qed

end
